theory Spec2Isabelle
  imports Main
begin

section \<open>The runner script \<open>gh_cli_script.py\<close>\<close>

text \<open>
  The script has two parts: a configuration object graph (\<open>_get_git_root\<close>, the four
  \<open>*Config\<close> classes, \<open>Config.load\<close>, \<open>get_config\<close>) and the process runner
  (\<open>run_copilot_agent\<close>, \<open>parse_metrics\<close>).  Both talk to the outside: the process
  environment, the search path, child processes, the file system.  What the outside answers
  is collected in a record \<open>world\<close>; what the script does to the outside is returned as a
  list of events next to the result.  An exception of the Python code is the \<open>Inl\<close> of a
  sum type.

  A \<open>bytes\<close> value is a \<open>string\<close>, the list of its bytes; a \<open>str\<close> value is the list of its
  code points.  \<open>str ''abc''\<close> is the \<open>str\<close> of an ASCII literal.
\<close>

subsection \<open>Text, exceptions and effects\<close>

type_synonym str = "nat list"

abbreviation str :: "string \<Rightarrow> str" where
  "str s \<equiv> map of_char s"

datatype captured = Bytes string | Text str

text \<open>
  What \<open>subprocess\<close> hands back for a captured stream: \<open>bytes\<close>, or \<open>str\<close> in text mode.
\<close>

datatype exn =
    ConfigurationError str
  | AgentError str
  | CalledProcessError "str list" int "captured option"
  | TimeoutExpired "str list" nat
  | OSError nat str "str option"
  | UnicodeDecodeError str
  | JSONDecodeError str
  | TypeError str
  | AttributeError str

text \<open>
  \<open>ConfigurationError\<close> and \<open>AgentError\<close> are the two classes the script defines; the
  others are the library exceptions its calls can raise.  \<open>CalledProcessError cmd returncode
  stderr\<close> and \<open>TimeoutExpired cmd timeout\<close> carry the attributes the script reads.
  \<open>OSError errno strerror filename\<close> stands for \<open>OSError\<close> and its subclasses:
  \<open>FileNotFoundError\<close> is the one with \<open>errno\<close> 2.
\<close>

definition FileNotFoundError :: "str \<Rightarrow> exn" where
  "FileNotFoundError filename = OSError 2 (str ''No such file or directory'') (Some filename)"

datatype path = Path str | Parent path | Join path str

text \<open>
  A \<open>pathlib.Path\<close> by the way it was made: \<open>Path(s)\<close>, \<open>p.parent\<close>, \<open>p / s\<close>.
\<close>

datatype level = INFO | WARNING | ERROR

datatype event =
    Log level str
  | Spawn "str list"
  | StdoutWrite string
  | LoadDotenv
  | OpenFile path

subsection \<open>Python's text operations\<close>

definition py_not :: "str option \<Rightarrow> bool" where
  \<comment> \<open>\<open>not x\<close> for \<open>x : str | None\<close>: true for \<open>None\<close> and for the empty string.\<close>
  "py_not x = (case x of None \<Rightarrow> True | Some s \<Rightarrow> s = [])"

primrec py_in :: "str \<Rightarrow> str \<Rightarrow> bool" where
  \<comment> \<open>\<open>sub in s\<close>: \<open>sub\<close> occurs in \<open>s\<close> as a contiguous run.\<close>
  "py_in sub [] = (sub = [])"
| "py_in sub (c # cs) = (take (length sub) (c # cs) = sub \<or> py_in sub cs)"

definition lower_char :: "nat \<Rightarrow> str" where
  "lower_char c =
     (if 65 \<le> c \<and> c \<le> 90 then [c + 32]
      else if c = 0x130 then [0x69, 0x307]
      else if c = 0x212A then [0x6B]
      else [c])"

definition lower :: "str \<Rightarrow> str" where
  \<comment> \<open>\<open>str.lower\<close> as far as ASCII goes: the capitals A to Z, and the two other code points
      whose lowercase form has an ASCII letter (U+0130, U+212A).  The remaining code points
      are kept; \<open>str.lower\<close> maps them to code points beyond ASCII, which makes no difference
      to where an ASCII word occurs.\<close>
  "lower s = concat (map lower_char s)"

definition is_linebreak :: "nat \<Rightarrow> bool" where
  \<comment> \<open>The line boundaries of \<open>str.splitlines\<close>.\<close>
  "is_linebreak c = (c \<in> {0x0A, 0x0B, 0x0C, 0x0D, 0x1C, 0x1D, 0x1E, 0x85, 0x2028, 0x2029})"

fun splitlines_from :: "str \<Rightarrow> str \<Rightarrow> str list" where
  "splitlines_from cur [] = (if cur = [] then [] else [rev cur])"
| "splitlines_from cur [c] =
     (if is_linebreak c then [rev cur] else [rev (c # cur)])"
| "splitlines_from cur (c # d # cs) =
     (if c = 0x0D \<and> d = 0x0A then rev cur # splitlines_from [] cs
      else if is_linebreak c then rev cur # splitlines_from [] (d # cs)
      else splitlines_from (c # cur) (d # cs))"

definition splitlines :: "str \<Rightarrow> str list" where
  \<comment> \<open>\<open>str.splitlines()\<close>: CR LF counts once, no empty last line.\<close>
  "splitlines s = splitlines_from [] s"

definition is_space :: "nat \<Rightarrow> bool" where
  \<comment> \<open>The white space that \<open>str.strip()\<close> removes.\<close>
  "is_space c =
     (c \<in> {0x09, 0x0A, 0x0B, 0x0C, 0x0D, 0x1C, 0x1D, 0x1E, 0x1F, 0x20, 0x85, 0xA0, 0x1680,
            0x2000, 0x2001, 0x2002, 0x2003, 0x2004, 0x2005, 0x2006, 0x2007, 0x2008, 0x2009,
            0x200A, 0x2028, 0x2029, 0x202F, 0x205F, 0x3000})"

definition strip :: "str \<Rightarrow> str" where
  "strip s = rev (dropWhile is_space (rev (dropWhile is_space s)))"

fun translate_newlines :: "str \<Rightarrow> str" where
  \<comment> \<open>Text mode: \<open>.replace("\r\n", "\n").replace("\r", "\n")\<close>\<close>
  "translate_newlines [] = []"
| "translate_newlines [c] = (if c = 0x0D then [0x0A] else [c])"
| "translate_newlines (c # d # cs) =
     (if c = 0x0D \<and> d = 0x0A then 0x0A # translate_newlines cs
      else if c = 0x0D then 0x0A # translate_newlines (d # cs)
      else c # translate_newlines (d # cs))"

datatype utf8_state = Idle | Pending nat nat nat nat

text \<open>
  The UTF-8 decoder reads byte by byte.  \<open>Pending n acc lo hi\<close>: \<open>n\<close> more bytes of the
  current code point are due, \<open>acc\<close> holds its bits so far, the next byte has to lie between
  \<open>lo\<close> and \<open>hi\<close>.  An ill-formed run of bytes gives \<open>None\<close>.
\<close>

definition utf8_start :: "nat \<Rightarrow> nat option list \<times> utf8_state" where
  "utf8_start b =
     (if b < 0x80 then ([Some b], Idle)
      else if 0xC2 \<le> b \<and> b \<le> 0xDF then ([], Pending 1 (b mod 32) 0x80 0xBF)
      else if b = 0xE0 then ([], Pending 2 0 0xA0 0xBF)
      else if b = 0xED then ([], Pending 2 13 0x80 0x9F)
      else if 0xE1 \<le> b \<and> b \<le> 0xEF then ([], Pending 2 (b mod 16) 0x80 0xBF)
      else if b = 0xF0 then ([], Pending 3 0 0x90 0xBF)
      else if 0xF1 \<le> b \<and> b \<le> 0xF3 then ([], Pending 3 (b mod 8) 0x80 0xBF)
      else if b = 0xF4 then ([], Pending 3 4 0x80 0x8F)
      else ([None], Idle))"

fun utf8_from :: "utf8_state \<Rightarrow> nat list \<Rightarrow> nat option list" where
  "utf8_from st [] = (case st of Idle \<Rightarrow> [] | Pending n acc lo hi \<Rightarrow> [None])"
| "utf8_from st (b # bs) =
     (case st of
        Idle \<Rightarrow> fst (utf8_start b) @ utf8_from (snd (utf8_start b)) bs
      | Pending n acc lo hi \<Rightarrow>
          if lo \<le> b \<and> b \<le> hi
          then (if n = 1 then Some (acc * 64 + b mod 64) # utf8_from Idle bs
                else utf8_from (Pending (n - 1) (acc * 64 + b mod 64) 0x80 0xBF) bs)
          else None # fst (utf8_start b) @ utf8_from (snd (utf8_start b)) bs)"

definition decode_utf8_replace :: "string \<Rightarrow> str" where
  \<comment> \<open>\<open>b.decode("utf-8", errors="replace")\<close>: every ill-formed run becomes U+FFFD.\<close>
  "decode_utf8_replace b =
     map (\<lambda>x. case x of Some c \<Rightarrow> c | None \<Rightarrow> 0xFFFD) (utf8_from Idle (map of_char b))"

definition digit_char :: "nat \<Rightarrow> nat" where
  \<comment> \<open>The digit for a value below 16.\<close>
  "digit_char d = (if d < 10 then 48 + d else 87 + d)"

fun show_nat :: "nat \<Rightarrow> str" where
  "show_nat n = (if n < 10 then [digit_char n] else show_nat (n div 10) @ [digit_char (n mod 10)])"

declare show_nat.simps [simp del]

definition show_int :: "int \<Rightarrow> str" where
  \<comment> \<open>\<open>'%d' % i\<close>\<close>
  "show_int i = (if i < 0 then 0x2D # show_nat (nat (- i)) else show_nat (nat i))"

definition hex2 :: "nat \<Rightarrow> str" where
  "hex2 c = [digit_char (c div 16 mod 16), digit_char (c mod 16)]"

definition hex4 :: "nat \<Rightarrow> str" where
  "hex4 c = hex2 (c div 256) @ hex2 (c mod 256)"

definition hex8 :: "nat \<Rightarrow> str" where
  "hex8 c = hex4 (c div 65536) @ hex4 (c mod 65536)"

definition repr_quote :: "str \<Rightarrow> nat" where
  \<comment> \<open>\<open>repr\<close> quotes with \<open>'\<close>, unless the text has a \<open>'\<close> and no \<open>"\<close>.\<close>
  "repr_quote s = (if 0x27 \<in> set s \<and> 0x22 \<notin> set s then 0x22 else 0x27)"

definition repr_ascii :: "nat \<Rightarrow> nat \<Rightarrow> str" where
  \<comment> \<open>One code point below 128 inside the quotes \<open>q\<close>.\<close>
  "repr_ascii q c =
     (if c = q \<or> c = 0x5C then [0x5C, c]
      else if c = 0x09 then (0x5C # str ''t'')
      else if c = 0x0A then (0x5C # str ''n'')
      else if c = 0x0D then (0x5C # str ''r'')
      else if c < 32 \<or> c = 127 then (0x5C # str ''x'') @ hex2 c
      else [c])"

definition repr_bytes :: "string \<Rightarrow> str" where
  \<comment> \<open>\<open>repr(b)\<close> for \<open>b : bytes\<close>: every byte from 128 on is written \<open>\xhh\<close>.\<close>
  "repr_bytes b =
     (let s = map of_char b; q = repr_quote s
      in 0x62 # q # concat (map (\<lambda>c. if 128 \<le> c then (0x5C # str ''x'') @ hex2 c else repr_ascii q c) s) @ [q])"

definition repr_char :: "(nat \<Rightarrow> bool) \<Rightarrow> nat \<Rightarrow> nat \<Rightarrow> str" where
  \<comment> \<open>One code point of a \<open>str\<close>: beyond ASCII it is kept when printable, and written
      \<open>\xhh\<close>, \<open>\uhhhh\<close> or \<open>\Uhhhhhhhh\<close> otherwise.\<close>
  "repr_char printable q c =
     (if c < 128 then repr_ascii q c
      else if printable c then [c]
      else if c < 256 then (0x5C # str ''x'') @ hex2 c
      else if c < 65536 then (0x5C # str ''u'') @ hex4 c
      else (0x5C # str ''U'') @ hex8 c)"

definition repr_str :: "(nat \<Rightarrow> bool) \<Rightarrow> str \<Rightarrow> str" where
  \<comment> \<open>\<open>repr(s)\<close> for \<open>s : str\<close>\<close>
  "repr_str printable s =
     repr_quote s # concat (map (repr_char printable (repr_quote s)) s) @ [repr_quote s]"

fun join :: "str \<Rightarrow> str list \<Rightarrow> str" where
  "join sep [] = []"
| "join sep [x] = x"
| "join sep (x # y # xs) = x @ sep @ join sep (y # xs)"

definition repr_list :: "(nat \<Rightarrow> bool) \<Rightarrow> str list \<Rightarrow> str" where
  \<comment> \<open>\<open>'%s' % xs\<close> for a list of \<open>str\<close>\<close>
  "repr_list printable xs = str ''['' @ join (str '', '') (map (repr_str printable) xs) @ str '']''"

definition format_captured :: "captured option \<Rightarrow> str" where
  \<comment> \<open>\<open>f"{x}"\<close> for a captured stream\<close>
  "format_captured x = (case x of None \<Rightarrow> str ''None'' | Some (Bytes b) \<Rightarrow> repr_bytes b | Some (Text t) \<Rightarrow> t)"

subsection \<open>The strings of the exceptions\<close>

definition called_process_error_str ::
  "(nat \<Rightarrow> bool) \<Rightarrow> (nat \<rightharpoonup> str) \<Rightarrow> str list \<Rightarrow> int \<Rightarrow> str" where
  \<comment> \<open>\<open>CalledProcessError.__str__\<close>: it prints the command and the return code, or the
      signal; the table of signal names belongs to the platform.\<close>
  "called_process_error_str printable signals cmd returncode =
     (if returncode < 0 then
        (case signals (nat (- returncode)) of
           Some name \<Rightarrow>
             str ''Command '' @ [0x27] @ repr_list printable cmd @ [0x27] @ str '' died with <Signals.'' @ name
               @ str '': '' @ show_int (- returncode) @ str ''>.''
         | None \<Rightarrow>
             str ''Command '' @ [0x27] @ repr_list printable cmd @ [0x27] @ str '' died with unknown signal ''
               @ show_int (- returncode) @ str ''.'')
      else str ''Command '' @ [0x27] @ repr_list printable cmd @ [0x27] @ str '' returned non-zero exit status ''
             @ show_int returncode @ str ''.'')"

fun exn_str :: "(nat \<Rightarrow> bool) \<Rightarrow> (nat \<rightharpoonup> str) \<Rightarrow> exn \<Rightarrow> str" where
  \<comment> \<open>\<open>str(e)\<close>\<close>
  "exn_str printable signals (CalledProcessError cmd returncode err) =
     called_process_error_str printable signals cmd returncode"
| "exn_str printable signals (TimeoutExpired cmd t) =
     str ''Command '' @ [0x27] @ repr_list printable cmd @ [0x27] @ str '' timed out after '' @ show_nat t @ str '' seconds''"
| "exn_str printable signals (OSError errno strerror filename) =
     str ''[Errno '' @ show_nat errno @ str ''] '' @ strerror
       @ (case filename of None \<Rightarrow> [] | Some name \<Rightarrow> str '': '' @ repr_str printable name)"
| "exn_str printable signals (ConfigurationError m) = m"
| "exn_str printable signals (AgentError m) = m"
| "exn_str printable signals (UnicodeDecodeError m) = m"
| "exn_str printable signals (JSONDecodeError m) = m"
| "exn_str printable signals (TypeError m) = m"
| "exn_str printable signals (AttributeError m) = m"

subsection \<open>The outside\<close>

datatype outcome =
    LaunchError nat str "str option"
  | Exited nat int string string

text \<open>
  What happens when \<open>subprocess.run\<close> starts a command.  \<open>LaunchError errno strerror
  filename\<close>: the operating system refuses, and \<open>Popen\<close> raises the \<open>OSError\<close> with these
  attributes (\<open>errno\<close> 2, \<open>FileNotFoundError\<close>, when the executable does not exist).
  \<open>Exited seconds returncode out err\<close>: the child exits with \<open>returncode\<close> having written
  \<open>out\<close> and \<open>err\<close>, and \<open>seconds\<close> after the start \<open>communicate()\<close> is through: the child has
  exited and every captured stream has reached its end.  A descendant that keeps a captured
  stream open makes \<open>seconds\<close> longer than the life of the child.
\<close>

datatype json =
    JNull
  | JBool bool
  | JInt int
  | JFloat str
  | JString str
  | JArray "json list"
  | JObject "(str \<times> json) list"

text \<open>
  The value \<open>json.load\<close> builds: \<open>JNull\<close> is Python's \<open>None\<close>, \<open>JObject\<close> a \<open>dict\<close>
  with its items (looked up with \<open>map_of\<close>), \<open>JArray\<close> a \<open>list\<close>; a float is kept as
  its literal.
\<close>

datatype file_content = Unreadable nat str "str option" | Malformed str | Document json

text \<open>
  What \<open>open\<close> followed by \<open>json.load\<close> finds at a path.  \<open>Unreadable errno strerror
  filename\<close>: \<open>open\<close> raises that \<open>OSError\<close>; \<open>errno\<close> 2 is the missing file.  \<open>Malformed
  msg\<close>: the file is not JSON, and \<open>json.load\<close> raises \<open>JSONDecodeError\<close> with that message.
\<close>

record world =
  which :: "str \<rightharpoonup> str"
  run_process :: "str list \<Rightarrow> outcome"
  signals :: "nat \<rightharpoonup> str"
  isprintable :: "nat \<Rightarrow> bool"
  locale_decode :: "string \<Rightarrow> str + str"
  script_file :: str
  files :: "path \<Rightarrow> file_content"
  dotenv :: "str \<rightharpoonup> str"

text \<open>
  \<open>which\<close> is \<open>shutil.which\<close>; \<open>run_process\<close> what a started command does; \<open>signals\<close> the
  platform's table of signal names; \<open>isprintable\<close> the printable code points beyond ASCII
  in the Unicode tables of the interpreter; \<open>locale_decode\<close> the decoding of \<open>bytes\<close> in the
  encoding of the locale, which text mode uses (\<open>Inl msg\<close>: the bytes cannot be decoded, and
  \<open>msg\<close> is the message of the \<open>UnicodeDecodeError\<close>); \<open>script_file\<close> the value of
  \<open>__file__\<close>; \<open>files\<close> the file system as far as the script reads it; \<open>dotenv\<close> the
  variables of the \<open>.env\<close> file that \<open>load_dotenv\<close> finds (none when there is no such file).
\<close>

record completed =
  returncode :: int
  stdout :: "captured option"
  stderr :: "captured option"

definition capture :: "world \<Rightarrow> bool \<Rightarrow> bool \<Rightarrow> string \<Rightarrow> exn + captured option" where
  \<comment> \<open>What \<open>communicate()\<close> returns for one stream: \<open>None\<close> when it is not captured, the
      bytes, or in text mode the decoded text with its newlines translated.\<close>
  "capture w captured text_mode b =
     (if \<not> captured then Inr None
      else if \<not> text_mode then Inr (Some (Bytes b))
      else case locale_decode w b of
             Inl msg \<Rightarrow> Inl (UnicodeDecodeError msg)
           | Inr t \<Rightarrow> Inr (Some (Text (translate_newlines t))))"

definition subprocess_run ::
  "world \<Rightarrow> str list \<Rightarrow> bool \<Rightarrow> bool \<Rightarrow> bool \<Rightarrow> nat option \<Rightarrow> exn + completed" where
  \<comment> \<open>\<open>subprocess.run(args, check=True, ...)\<close> with stdout and stderr captured or not, in
      text mode or not, and an optional timeout in seconds.  The order is the library's:
      start the child, \<open>communicate(timeout)\<close>, decode, then look at the return code.\<close>
  "subprocess_run w args capture_out capture_err text_mode timeout =
     (case run_process w args of
        LaunchError errno strerror filename \<Rightarrow> Inl (OSError errno strerror filename)
      | Exited seconds rc out err \<Rightarrow>
          if (case timeout of Some t \<Rightarrow> t < seconds | None \<Rightarrow> False)
          then Inl (TimeoutExpired args (the timeout))
          else
            (case capture w capture_out text_mode out of
               Inl e \<Rightarrow> Inl e
             | Inr got_out \<Rightarrow>
                 (case capture w capture_err text_mode err of
                    Inl e \<Rightarrow> Inl e
                  | Inr got_err \<Rightarrow>
                      if rc \<noteq> 0 then Inl (CalledProcessError args rc got_err)
                      else Inr \<lparr>returncode = rc, stdout = got_out, stderr = got_err\<rparr>)))"

subsection \<open>The metrics extractor\<close>

type_synonym metrics = "(str \<times> int) list"

text \<open>
  \<open>parse_metrics\<close> creates the dictionary \<open>metrics\<close> empty, walks the lines, and returns
  \<open>metrics if metrics else None\<close>.  The loop body only logs.
\<close>

definition is_metric_line :: "str \<Rightarrow> bool" where
  "is_metric_line line = (py_in (str ''tokens'') (lower line) \<or> py_in (str ''cost'') (lower line))"

fun parse_metrics_loop :: "metrics \<Rightarrow> str list \<Rightarrow> metrics \<times> event list" where
  "parse_metrics_loop metrics [] = (metrics, [])"
| "parse_metrics_loop metrics (line # rest) =
     (let logged = (if is_metric_line line then [Log INFO (str ''Metric: '' @ line)] else []);
          (metrics', later) = parse_metrics_loop metrics rest
      in (metrics', logged @ later))"

definition parse_metrics :: "str list \<Rightarrow> metrics option \<times> event list" where
  "parse_metrics stderr_lines =
     (let (metrics, logged) = parse_metrics_loop [] stderr_lines
      in (if metrics \<noteq> [] then Some metrics else None, logged))"

subsection \<open>The process runner\<close>

definition cmd_args :: "str \<Rightarrow> str list" where
  "cmd_args copilot_cmd =
     [copilot_cmd,
      str ''--allow-all-tools'',
      str ''--allow-all-paths'',
      str ''--disable-builtin-mcps'',
      str ''--model=claude-haiku-4.5'',
      str ''--log-level=debug'',
      str ''--prompt= What is the meaning and structure of this repository? After you reply, use gh to make a hello world on the last PR'',
      str ''--no-custom-instructions'']"

definition not_found_message :: str where
  "not_found_message = str ''Copilot CLI not found in PATH. Please ensure it is installed and available.''"

definition unexpected :: "world \<Rightarrow> event list \<Rightarrow> exn \<Rightarrow> (exn + (metrics option \<times> bool)) \<times> event list" where
  \<comment> \<open>\<open>except Exception as e\<close>: log and raise again.\<close>
  "unexpected w so_far e =
     (Inl e, so_far @ [Log ERROR (str ''Unexpected error running Copilot CLI: ''
                                    @ exn_str (isprintable w) (signals w) e)])"

definition run_copilot_agent ::
  "world \<Rightarrow> (str \<rightharpoonup> str) \<Rightarrow> str \<Rightarrow> (exn + (metrics option \<times> bool)) \<times> event list" where
  "run_copilot_agent w environ repo_path =
     (let started = [Log INFO (str ''Running GitHub Copilot CLI''),
                     Log INFO (str ''Executing Copilot CLI in directory: '' @ repo_path)];
          copilot_cmd = which w (str ''copilot'')
      in if py_not copilot_cmd then (Inl (AgentError not_found_message), started)
         else
           let args = cmd_args (the copilot_cmd);
               warned = (if py_not (environ (str ''GH_TOKEN''))
                         then [Log WARNING (str ''GH_TOKEN not found in environment'')] else []);
               so_far = started @ warned @ [Spawn args]
           in case subprocess_run w args False True False (Some 300) of
                Inr result \<Rightarrow>
                  (case stderr result of
                     Some (Bytes b) \<Rightarrow>
                       let echoed = (if b = [] then [] else [StdoutWrite b]);
                           decoded = (if b = [] then [] else decode_utf8_replace b);
                           (metrics, logged) = parse_metrics (splitlines decoded)
                       in (Inr (metrics, True),
                           so_far @ echoed @ [Log INFO (str ''Copilot CLI run complete'')] @ logged)
                   | Some (Text t) \<Rightarrow>
                       if t = [] then
                         let (metrics, logged) = parse_metrics (splitlines [])
                         in (Inr (metrics, True),
                             so_far @ [Log INFO (str ''Copilot CLI run complete'')] @ logged)
                       else unexpected w so_far
                              (TypeError (str ''a bytes-like object is required, not 'str'' @ [0x27]))
                   | None \<Rightarrow>
                       let (metrics, logged) = parse_metrics (splitlines [])
                       in (Inr (metrics, True),
                           so_far @ [Log INFO (str ''Copilot CLI run complete'')] @ logged))
              | Inl (TimeoutExpired cmd t) \<Rightarrow>
                  (Inr (None, False),
                   so_far @ [Log ERROR (str ''Copilot CLI timed out after 300 seconds'')])
              | Inl (CalledProcessError cmd rc err) \<Rightarrow>
                  (Inl (AgentError (str ''Copilot CLI execution failed: ''
                          @ exn_str (isprintable w) (signals w) (CalledProcessError cmd rc err))),
                   so_far @ [Log ERROR (str ''Copilot CLI execution failed with error ''
                                          @ format_captured err)])
              | Inl e \<Rightarrow> unexpected w so_far e)"

subsection \<open>Repository root\<close>

definition git_args :: "str list" where
  "git_args = [str ''git'', str ''rev-parse'', str ''--show-toplevel'']"

definition no_attribute :: "str \<Rightarrow> str \<Rightarrow> exn" where
  \<comment> \<open>\<open>AttributeError: 'T' object has no attribute 'a'\<close>\<close>
  "no_attribute type_name name =
     AttributeError ([0x27] @ type_name @ [0x27] @ str '' object has no attribute '' @ [0x27] @ name @ [0x27])"

definition get_git_root :: "world \<Rightarrow> (exn + path) \<times> event list" where
  \<comment> \<open>\<open>_get_git_root\<close>: \<open>capture_output=True, text=True, check=True\<close>, no timeout; the only
      handler is \<open>except subprocess.CalledProcessError\<close>.\<close>
  "get_git_root w =
     (case subprocess_run w git_args True True True None of
        Inr result \<Rightarrow>
          (case stdout result of
             Some (Text out) \<Rightarrow> (Inr (Path (strip out)), [Spawn git_args])
           | Some (Bytes b) \<Rightarrow>
               (Inl (TypeError (str ''argument should be a str object or an os.PathLike object returning str, not <class 'bytes'>'')),
                [Spawn git_args])
           | None \<Rightarrow> (Inl (no_attribute (str ''NoneType'') (str ''strip'')), [Spawn git_args]))
      | Inl (CalledProcessError cmd rc err) \<Rightarrow>
          (Inr (Parent (Parent (Parent (Path (script_file w))))), [Spawn git_args])
      | Inl e \<Rightarrow> (Inl e, [Spawn git_args]))"

subsection \<open>The configuration classes\<close>

text \<open>
  \<open>PathConfig\<close>, \<open>TimeoutConfig\<close>, \<open>FilePatternConfig\<close>, \<open>EnvironmentConfig\<close> and \<open>Config\<close>
  are plain classes: each body holds annotations and class methods, no \<open>__init__\<close>, no
  decorator, no base class.  Calling such a class goes to \<open>object.__new__\<close> and
  \<open>object.__init__\<close>, which accept no argument: \<open>cls(name=value, ...)\<close> raises
  \<open>TypeError: <class>() takes no arguments\<close>, after the keyword arguments have been
  evaluated.  \<open>instantiate cls keywords obj\<close> is that call, \<open>obj\<close> being the object with the
  attributes the keywords name.
\<close>

definition instantiate :: "str \<Rightarrow> str list \<Rightarrow> 'a \<Rightarrow> exn + 'a" where
  "instantiate cls keywords obj =
     (if keywords = [] then Inr obj else Inl (TypeError (cls @ str ''() takes no arguments'')))"

record class_defs =
  has_init :: "str \<Rightarrow> bool"
  dataset_schema_path :: "(path \<Rightarrow> path) option"

text \<open>
  Two things that \<open>Config.load\<close> relies on are not in the file: constructors that take the
  annotated attributes as keyword arguments, and the attribute \<open>dataset_schema_path\<close> of
  \<open>PathConfig\<close>.  The record \<open>class_defs\<close> says what the classes provide: \<open>has_init cls\<close>, the
  class named \<open>cls\<close> has such a constructor; \<open>dataset_schema_path\<close>, the attribute as a
  function of the root, if \<open>PathConfig\<close> has it.  \<open>as_written\<close> is the file as it is.  What
  is proved for every value of \<open>class_defs\<close> depends on neither.
\<close>

definition as_written :: class_defs where
  "as_written = \<lparr>has_init = (\<lambda>cls. False), dataset_schema_path = None\<rparr>"

definition call :: "class_defs \<Rightarrow> str \<Rightarrow> str list \<Rightarrow> 'a \<Rightarrow> exn + 'a" where
  \<comment> \<open>\<open>cls(name=value, ...)\<close>\<close>
  "call cl cls keywords obj = (if has_init cl cls then Inr obj else instantiate cls keywords obj)"

definition and_then :: "exn + 'a \<Rightarrow> ('a \<Rightarrow> exn + 'b) \<Rightarrow> exn + 'b" where
  \<comment> \<open>One statement after another: an exception ends the sequence.\<close>
  "and_then m f = (case m of Inl e \<Rightarrow> Inl e | Inr x \<Rightarrow> f x)"

record PathConfig =
  root :: path

definition PathConfig_from_root :: "class_defs \<Rightarrow> path \<Rightarrow> exn + PathConfig" where
  "PathConfig_from_root cl r = call cl (str ''PathConfig'') [str ''root''] \<lparr>root = r\<rparr>"

definition PathConfig_dataset_schema_path :: "class_defs \<Rightarrow> PathConfig \<Rightarrow> exn + path" where
  \<comment> \<open>\<open>path_config.dataset_schema_path\<close>\<close>
  "PathConfig_dataset_schema_path cl pc =
     (case dataset_schema_path cl of
        Some f \<Rightarrow> Inr (f (root pc))
      | None \<Rightarrow> Inl (no_attribute (str ''PathConfig'') (str ''dataset_schema_path'')))"

record TimeoutConfig =
  build_baseapp :: int
  build_app :: int
  test_execution :: int
  github_copilot_cli :: int

definition TimeoutConfig_default :: "class_defs \<Rightarrow> exn + TimeoutConfig" where
  "TimeoutConfig_default cl =
     call cl (str ''TimeoutConfig'')
       [str ''build_baseapp'', str ''build_app'', str ''test_execution'', str ''github_copilot_cli'']
       \<lparr>build_baseapp = 30 * 60, build_app = 5 * 60, test_execution = 3 * 60,
        github_copilot_cli = 30 * 60\<rparr>"

record FilePatternConfig =
  trajectory_pattern :: str
  patch_pattern :: str
  instance_pattern :: json
  result_pattern :: str
  copilot_instruction_naming :: str
  copilot_instructions_dirname :: str
  copilot_instructions_pattern :: str

definition FilePatternConfig_default :: "class_defs \<Rightarrow> json \<Rightarrow> exn + FilePatternConfig" where
  "FilePatternConfig_default cl ip =
     call cl (str ''FilePatternConfig'')
       [str ''trajectory_pattern'', str ''patch_pattern'', str ''instance_pattern'', str ''result_pattern'',
        str ''copilot_instruction_naming'', str ''copilot_instructions_dirname'',
        str ''copilot_instructions_pattern'']
       \<lparr>trajectory_pattern = str ''.traj.json'',
        patch_pattern = str ''.patch'',
        instance_pattern = ip,
        result_pattern = str ''.jsonl'',
        copilot_instruction_naming = str ''copilot-instructions.md'',
        copilot_instructions_dirname = str ''instructions'',
        copilot_instructions_pattern = str ''*.instructions.md''\<rparr>"

record EnvironmentConfig =
  ado_token :: "str option"
  github_output :: "str option"
  github_step_summary :: "str option"
  github_actions :: bool
  runner_debug :: bool

definition from_environment_arguments :: "(str \<rightharpoonup> str) \<Rightarrow> EnvironmentConfig" where
  \<comment> \<open>The keyword arguments of the call in \<open>from_environment\<close>; \<open>os.getenv(k)\<close> is
      \<open>environ k\<close>.\<close>
  "from_environment_arguments environ =
     \<lparr>ado_token = environ (str ''ADO_TOKEN''),
      github_output = environ (str ''GITHUB_OUTPUT''),
      github_step_summary = environ (str ''GITHUB_STEP_SUMMARY''),
      github_actions = (environ (str ''GITHUB_ACTIONS'') = Some (str ''true'')),
      runner_debug = (environ (str ''RUNNER_DEBUG'') = Some (str ''1''))\<rparr>"

definition EnvironmentConfig_from_environment :: "(str \<rightharpoonup> str) \<Rightarrow> exn + EnvironmentConfig" where
  \<comment> \<open>The class method of the file as it is.\<close>
  "EnvironmentConfig_from_environment environ =
     instantiate (str ''EnvironmentConfig'')
       [str ''ado_token'', str ''github_output'', str ''github_step_summary'', str ''github_actions'',
        str ''runner_debug'']
       (from_environment_arguments environ)"

definition from_environment :: "class_defs \<Rightarrow> (str \<rightharpoonup> str) \<Rightarrow> exn + EnvironmentConfig" where
  \<comment> \<open>The class method for any \<open>class_defs\<close>.\<close>
  "from_environment cl environ =
     (if has_init cl (str ''EnvironmentConfig'') then Inr (from_environment_arguments environ)
      else EnvironmentConfig_from_environment environ)"

record Config =
  paths :: PathConfig
  env :: EnvironmentConfig
  timeout :: TimeoutConfig
  file_patterns :: FilePatternConfig

subsection \<open>Loading the configuration\<close>

definition type_name :: "json \<Rightarrow> str" where
  "type_name v =
     (case v of JNull \<Rightarrow> str ''NoneType'' | JBool b \<Rightarrow> str ''bool'' | JInt i \<Rightarrow> str ''int''
      | JFloat f \<Rightarrow> str ''float'' | JString s \<Rightarrow> str ''str'' | JArray xs \<Rightarrow> str ''list''
      | JObject items \<Rightarrow> str ''dict'')"

definition py_get :: "json \<Rightarrow> str \<Rightarrow> json \<Rightarrow> exn + json" where
  \<comment> \<open>\<open>obj.get(key, dflt)\<close>: only a \<open>dict\<close> has the method.\<close>
  "py_get obj key dflt =
     (case obj of
        JObject items \<Rightarrow> Inr (case map_of items key of Some v \<Rightarrow> v | None \<Rightarrow> dflt)
      | _ \<Rightarrow> Inl (no_attribute (type_name obj) (str ''get'')))"

definition instance_pattern_of :: "json \<Rightarrow> exn + json" where
  \<comment> \<open>\<open>schema.get("properties", {}).get("instance_id", {}).get("pattern")\<close>\<close>
  "instance_pattern_of schema =
     and_then (py_get schema (str ''properties'') (JObject []))
       (\<lambda>properties. and_then (py_get properties (str ''instance_id'') (JObject []))
          (\<lambda>instance_id. py_get instance_id (str ''pattern'') JNull))"

definition load_json :: "world \<Rightarrow> path \<Rightarrow> exn + json" where
  \<comment> \<open>\<open>with open(p) as f: schema = json.load(f)\<close>\<close>
  "load_json w p =
     (case files w p of
        Unreadable errno strerror filename \<Rightarrow> Inl (OSError errno strerror filename)
      | Malformed msg \<Rightarrow> Inl (JSONDecodeError msg)
      | Document schema \<Rightarrow> Inr schema)"

definition assemble :: "class_defs \<Rightarrow> PathConfig \<Rightarrow> (str \<rightharpoonup> str) \<Rightarrow> json \<Rightarrow> exn + Config" where
  \<comment> \<open>The \<open>return cls(...)\<close> of \<open>Config.load\<close>: the arguments are evaluated in order, then
      the class is called.\<close>
  "assemble cl path_config environ ip =
     and_then (from_environment cl environ)
       (\<lambda>e. and_then (TimeoutConfig_default cl)
          (\<lambda>t. and_then (FilePatternConfig_default cl ip)
             (\<lambda>f. call cl (str ''Config'') [str ''paths'', str ''env'', str ''timeout'', str ''file_patterns'']
                     \<lparr>paths = path_config, env = e, timeout = t, file_patterns = f\<rparr>)))"

definition Config_load :: "class_defs \<Rightarrow> world \<Rightarrow> (str \<rightharpoonup> str) \<Rightarrow> (exn + Config) \<times> event list" where
  "Config_load cl w environ =
     (case get_git_root w of
        (Inl e, evs) \<Rightarrow> (Inl e, evs)
      | (Inr r, evs) \<Rightarrow>
          (case PathConfig_from_root cl r of
             Inl e \<Rightarrow> (Inl e, evs)
           | Inr path_config \<Rightarrow>
               (case PathConfig_dataset_schema_path cl path_config of
                  Inl e \<Rightarrow> (Inl e, evs)
                | Inr p \<Rightarrow>
                    (and_then (load_json w p)
                       (\<lambda>schema. and_then (instance_pattern_of schema)
                          (\<lambda>ip. assemble cl path_config environ ip)),
                     evs @ [OpenFile p]))))"

definition resolve_ado_token :: "Config \<Rightarrow> exn + str" where
  "resolve_ado_token self =
     (if py_not (ado_token (env self))
      then Inl (ConfigurationError (str ''ADO_TOKEN environment variable is required''))
      else Inr (the (ado_token (env self))))"

subsection \<open>The memoized configuration\<close>

record globals =
  os_environ :: "str \<rightharpoonup> str"
  config :: "Config option"

text \<open>
  The state of the process that the configuration code reads and writes: \<open>os.environ\<close>
  and the module variable \<open>_config\<close>, \<open>None\<close> at start.
\<close>

definition load_dotenv :: "world \<Rightarrow> (str \<rightharpoonup> str) \<Rightarrow> (str \<rightharpoonup> str)" where
  \<comment> \<open>\<open>load_dotenv()\<close> adds the variables of the \<open>.env\<close> file that are not set yet.\<close>
  "load_dotenv w environ = (\<lambda>k. case environ k of Some v \<Rightarrow> Some v | None \<Rightarrow> dotenv w k)"

definition get_config :: "class_defs \<Rightarrow> world \<Rightarrow> globals \<Rightarrow> (exn + Config) \<times> globals \<times> event list" where
  "get_config cl w g =
     (case config g of
        Some c \<Rightarrow> (Inr c, g, [])
      | None \<Rightarrow>
          (let g1 = g\<lparr>os_environ := load_dotenv w (os_environ g)\<rparr>;
               (r, evs) = Config_load cl w (os_environ g1)
           in case r of
                Inl e \<Rightarrow> (Inl e, g1, LoadDotenv # evs)
              | Inr c \<Rightarrow> (Inr c, g1\<lparr>config := Some c\<rparr>, LoadDotenv # evs)))"

subsection \<open>Reading the events, and worlds to run the script in\<close>

definition spawns :: "event list \<Rightarrow> str list list" where
  \<comment> \<open>The commands started, in order.\<close>
  "spawns evs = concat (map (\<lambda>ev. case ev of Spawn args \<Rightarrow> [args] | _ \<Rightarrow> []) evs)"

fun ascii_decode_from :: "nat \<Rightarrow> string \<Rightarrow> str + str" where
  "ascii_decode_from i [] = Inr []"
| "ascii_decode_from i (c # cs) =
     (if 128 \<le> (of_char c :: nat)
      then Inl (str ''ascii'' @ [0x27] @ str '' codec can'' @ [0x27] @ str ''t decode byte 0x'' @ hex2 (of_char c)
                  @ str '' in position '' @ show_nat i @ str '': ordinal not in range(128)'')
      else case ascii_decode_from (Suc i) cs of
             Inl msg \<Rightarrow> Inl msg
           | Inr t \<Rightarrow> Inr (of_char c # t))"

definition ascii_decode :: "string \<Rightarrow> str + str" where
  \<comment> \<open>Decoding in a locale whose encoding is ASCII.\<close>
  "ascii_decode b = (case ascii_decode_from 0 b of Inl msg \<Rightarrow> Inl (0x27 # msg) | Inr t \<Rightarrow> Inr t)"

definition example_world :: world where
  \<comment> \<open>The agent is installed; \<open>git\<close> answers with the repository root after one second; the
      agent exits with status 1 after two seconds and has written \<open>boom\<close> to its standard
      error; the locale is ASCII; there is no schema document and no \<open>.env\<close> file.\<close>
  "example_world =
     \<lparr>which = [str ''copilot'' \<mapsto> str ''/usr/bin/copilot''],
      run_process = (\<lambda>args. if args = git_args then Exited 1 0 ''/repo\<newline>'' [] else Exited 2 1 [] ''boom''),
      signals = Map.empty,
      isprintable = (\<lambda>c. 0xA1 \<le> c \<and> c \<le> 0xFF \<and> c \<noteq> 0xAD),
      locale_decode = ascii_decode,
      script_file = str ''/repo/.github/scripts/gh_cli_script.py'',
      files = (\<lambda>p. Unreadable 2 (str ''No such file or directory'') (Some (str ''/repo/dataset/schema.json''))),
      dotenv = Map.empty\<rparr>"

definition with_constructors :: class_defs where
  \<comment> \<open>The classes with what \<open>Config.load\<close> relies on: every class takes its attributes as
      keyword arguments, and the schema document is \<open>root / "dataset" / "schema.json"\<close>.\<close>
  "with_constructors =
     \<lparr>has_init = (\<lambda>cls. True),
      dataset_schema_path = Some (\<lambda>r. Join (Join r (str ''dataset'')) (str ''schema.json''))\<rparr>"

definition example_config :: Config where
  "example_config =
     \<lparr>paths = \<lparr>root = Path (str ''/repo'')\<rparr>,
      env = from_environment_arguments [str ''ADO_TOKEN'' \<mapsto> str ''secret''],
      timeout = \<lparr>build_baseapp = 1800, build_app = 300, test_execution = 180, github_copilot_cli = 1800\<rparr>,
      file_patterns =
        \<lparr>trajectory_pattern = str ''.traj.json'', patch_pattern = str ''.patch'', instance_pattern = JNull,
         result_pattern = str ''.jsonl'', copilot_instruction_naming = str ''copilot-instructions.md'',
         copilot_instructions_dirname = str ''instructions'',
         copilot_instructions_pattern = str ''*.instructions.md''\<rparr>\<rparr>"

definition initial :: globals where
  \<comment> \<open>A fresh process with an empty environment: \<open>_config\<close> is \<open>None\<close>.\<close>
  "initial = \<lparr>os_environ = Map.empty, config = None\<rparr>"

definition schema_world :: "json \<Rightarrow> world" where
  \<comment> \<open>\<open>example_world\<close> with the schema document \<open>schema\<close> in place.\<close>
  "schema_world schema = example_world\<lparr>files := (\<lambda>p. Document schema)\<rparr>"

definition full_schema :: json where
  \<comment> \<open>A schema document with \<open>properties.instance_id.pattern\<close>.\<close>
  "full_schema =
     JObject [(str ''properties'',
               JObject [(str ''instance_id'',
                         JObject [(str ''type'', JString (str ''string'')),
                                  (str ''pattern'', JString (str ''^[a-z]+__[0-9]+$''))])])]"

section \<open>Properties\<close>

subsection \<open>The metrics extractor\<close>

lemma parse_metrics_loop_keeps: "fst (parse_metrics_loop m ls) = m"
  by (induction ls) (simp_all add: split_beta Let_def)

lemma parse_metrics_loop_logs:
  "snd (parse_metrics_loop m ls) = map (\<lambda>l. Log INFO (str ''Metric: '' @ l)) (filter is_metric_line ls)"
  by (induction ls) (simp_all add: split_beta Let_def)

lemma parse_metrics_result: "fst (parse_metrics ls) = None"
  by (simp add: parse_metrics_def split_beta parse_metrics_loop_keeps)

text \<open>
  C5: the metrics extractor returns \<open>None\<close> for every sequence of lines; a line that
  mentions tokens or cost gives one log record and nothing else.
\<close>

theorem parse_metrics_always_None:
  "parse_metrics ls = (None, map (\<lambda>l. Log INFO (str ''Metric: '' @ l)) (filter is_metric_line ls))"
proof -
  have "fst (parse_metrics_loop [] ls) = []"
    by (rule parse_metrics_loop_keeps)
  then show ?thesis
    by (simp add: parse_metrics_def split_beta parse_metrics_loop_logs)
qed

theorem parse_metrics_always_None_witness:
  "parse_metrics [str ''Tokens: 42'', str ''done''] = (None, [Log INFO (str ''Metric: Tokens: 42'')])"
  using parse_metrics_always_None [of "[str ''Tokens: 42'', str ''done'']"]
  by (simp add: is_metric_line_def lower_def lower_char_def)

subsection \<open>The process runner\<close>

text \<open>
  C6: when \<open>shutil.which\<close> finds no agent (\<open>None\<close>, or an empty name), the runner raises
  \<open>AgentError\<close> after its two opening log records: no command is started, neither once nor
  again.
\<close>

theorem missing_executable_raises_before_spawn:
  assumes "py_not (which w (str ''copilot''))"
  shows "run_copilot_agent w environ repo_path =
           (Inl (AgentError not_found_message),
            [Log INFO (str ''Running GitHub Copilot CLI''),
             Log INFO (str ''Executing Copilot CLI in directory: '' @ repo_path)])
         \<and> spawns (snd (run_copilot_agent w environ repo_path)) = []"
  using assms by (simp add: run_copilot_agent_def spawns_def)

theorem missing_executable_raises_before_spawn_witness:
  "py_not (which (example_world\<lparr>which := Map.empty\<rparr>) (str ''copilot''))
   \<and> fst (run_copilot_agent (example_world\<lparr>which := Map.empty\<rparr>) Map.empty (str ''/repo''))
       = Inl (AgentError not_found_message)
   \<and> spawns (snd (run_copilot_agent (example_world\<lparr>which := Map.empty\<rparr>) Map.empty (str ''/repo''))) = []"
  using missing_executable_raises_before_spawn [of "example_world\<lparr>which := Map.empty\<rparr>" Map.empty "str ''/repo''"]
  by (simp add: py_not_def spawns_def)

text \<open>
  With the agent found, the runner starts it once, and the outcome of that one run decides
  the result: the four cases of the \<open>try\<close> statement.
\<close>

lemma run_found:
  assumes "which w (str ''copilot'') = Some c" and "c \<noteq> []"
  shows "run_copilot_agent w environ repo_path =
     (let started = [Log INFO (str ''Running GitHub Copilot CLI''),
                     Log INFO (str ''Executing Copilot CLI in directory: '' @ repo_path)];
          warned = (if py_not (environ (str ''GH_TOKEN''))
                         then [Log WARNING (str ''GH_TOKEN not found in environment'')] else []);
          so_far = started @ warned @ [Spawn (cmd_args c)]
      in case run_process w (cmd_args c) of
           LaunchError errno strerror filename \<Rightarrow> unexpected w so_far (OSError errno strerror filename)
         | Exited seconds rc out err \<Rightarrow>
             if 300 < seconds
             then (Inr (None, False),
                   so_far @ [Log ERROR (str ''Copilot CLI timed out after 300 seconds'')])
             else if rc \<noteq> 0
             then (Inl (AgentError (str ''Copilot CLI execution failed: ''
                          @ called_process_error_str (isprintable w) (signals w) (cmd_args c) rc)),
                   so_far @ [Log ERROR (str ''Copilot CLI execution failed with error '' @ repr_bytes err)])
             else (Inr (None, True),
                   so_far @ (if err = [] then [] else [StdoutWrite err])
                     @ [Log INFO (str ''Copilot CLI run complete'')]
                     @ snd (parse_metrics (splitlines (if err = [] then [] else decode_utf8_replace err)))))"
  using assms
  by (simp add: run_copilot_agent_def py_not_def subprocess_run_def capture_def format_captured_def
        Let_def split_beta parse_metrics_result split: outcome.splits)

text \<open>
  C4: when \<open>subprocess.run\<close> is not through after its 300 seconds, the runner returns
  \<open>(None, False)\<close>: a value, not an exception; the last log record is the error record of
  the timeout, and the command was started once.  This is the only way to that value: when
  the runner returns \<open>(None, False)\<close> the run has timed out, a run that ends in time with a
  non-zero return code raises \<open>AgentError\<close>, and one that ends in time with return code 0
  returns \<open>(None, True)\<close>.
\<close>

theorem timeout_returns_None_False:
  assumes "which w (str ''copilot'') = Some c" and "c \<noteq> []"
  shows "(run_process w (cmd_args c) = Exited seconds rc out err \<and> 300 < seconds \<longrightarrow>
            fst (run_copilot_agent w environ repo_path) = Inr (None, False)
            \<and> last (snd (run_copilot_agent w environ repo_path))
                = Log ERROR (str ''Copilot CLI timed out after 300 seconds'')
            \<and> spawns (snd (run_copilot_agent w environ repo_path)) = [cmd_args c])
       \<and> (fst (run_copilot_agent w environ repo_path) = Inr (None, False) \<longrightarrow>
            (\<exists>seconds rc out err. run_process w (cmd_args c) = Exited seconds rc out err \<and> 300 < seconds))
       \<and> (run_process w (cmd_args c) = Exited seconds rc out err \<and> seconds \<le> 300 \<and> rc \<noteq> 0 \<longrightarrow>
            (\<exists>m. fst (run_copilot_agent w environ repo_path) = Inl (AgentError m)))
       \<and> (run_process w (cmd_args c) = Exited seconds rc out err \<and> seconds \<le> 300 \<and> rc = 0 \<longrightarrow>
            fst (run_copilot_agent w environ repo_path) = Inr (None, True))"
  by (cases "run_process w (cmd_args c)")
     (simp_all add: run_found [OF assms] unexpected_def spawns_def Let_def)

theorem timeout_returns_None_False_witness:
  "which example_world (str ''copilot'') = Some (str ''/usr/bin/copilot'')
   \<and> run_process (example_world\<lparr>run_process := (\<lambda>args. Exited 301 1 [] ''partial'')\<rparr>)
         (cmd_args (str ''/usr/bin/copilot'')) = Exited 301 1 [] ''partial''
   \<and> fst (run_copilot_agent (example_world\<lparr>run_process := (\<lambda>args. Exited 301 1 [] ''partial'')\<rparr>)
             Map.empty (str ''/repo'')) = Inr (None, False)
   \<and> run_process example_world (cmd_args (str ''/usr/bin/copilot'')) = Exited 2 1 [] ''boom''
   \<and> fst (run_copilot_agent example_world Map.empty (str ''/repo'')) \<noteq> Inr (None, False)
   \<and> run_process (example_world\<lparr>run_process := (\<lambda>args. Exited 300 0 [] ''tokens: 42'')\<rparr>)
         (cmd_args (str ''/usr/bin/copilot'')) = Exited 300 0 [] ''tokens: 42''
   \<and> fst (run_copilot_agent (example_world\<lparr>run_process := (\<lambda>args. Exited 300 0 [] ''tokens: 42'')\<rparr>)
             Map.empty (str ''/repo'')) = Inr (None, True)"
  using timeout_returns_None_False
          [of "example_world\<lparr>run_process := (\<lambda>args. Exited 301 1 [] ''partial'')\<rparr>"
              "str ''/usr/bin/copilot''" 301 1 "[]" "''partial''" Map.empty "str ''/repo''"]
        timeout_returns_None_False
          [of example_world "str ''/usr/bin/copilot''" 2 1 "[]" "''boom''" Map.empty "str ''/repo''"]
        timeout_returns_None_False
          [of "example_world\<lparr>run_process := (\<lambda>args. Exited 300 0 [] ''tokens: 42'')\<rparr>"
              "str ''/usr/bin/copilot''" 300 0 "[]" "''tokens: 42''" Map.empty "str ''/repo''"]
  by (auto simp add: example_world_def cmd_args_def git_args_def)

text \<open>
  C3, as the code has it: when the child exits with a non-zero return code and
  \<open>subprocess.run\<close> is through within its 300 seconds, the runner raises \<open>AgentError\<close>; the
  message is \<open>Copilot CLI execution failed: \<close> followed by the string of the
  \<open>CalledProcessError\<close>, which names the command and the return code (or the signal).
  The captured standard error is written to the log, at level \<open>ERROR\<close>, and is no part of the
  message.
\<close>

theorem nonzero_exit_raises_AgentError:
  assumes "which w (str ''copilot'') = Some c" and "c \<noteq> []"
    and "run_process w (cmd_args c) = Exited seconds rc out err" and "seconds \<le> 300" and "rc \<noteq> 0"
  shows "fst (run_copilot_agent w environ repo_path)
           = Inl (AgentError (str ''Copilot CLI execution failed: ''
                    @ called_process_error_str (isprintable w) (signals w) (cmd_args c) rc))
         \<and> last (snd (run_copilot_agent w environ repo_path))
             = Log ERROR (str ''Copilot CLI execution failed with error '' @ repr_bytes err)"
  using assms(3-5) by (simp add: run_found [OF assms(1,2)] Let_def)

theorem nonzero_exit_raises_AgentError_witness:
  "which example_world (str ''copilot'') = Some (str ''/usr/bin/copilot'')
   \<and> run_process example_world (cmd_args (str ''/usr/bin/copilot'')) = Exited 2 1 [] ''boom''
   \<and> fst (run_copilot_agent example_world Map.empty (str ''/repo''))
       = Inl (AgentError (str ''Copilot CLI execution failed: Command '['/usr/bin/copilot', '--allow-all-tools', '--allow-all-paths', '--disable-builtin-mcps', '--model=claude-haiku-4.5', '--log-level=debug', '--prompt= What is the meaning and structure of this repository? After you reply, use gh to make a hello world on the last PR', '--no-custom-instructions']' returned non-zero exit status 1.''))
   \<and> last (snd (run_copilot_agent example_world Map.empty (str ''/repo'')))
       = Log ERROR (str ''Copilot CLI execution failed with error b'boom'' @ [0x27])"
  using nonzero_exit_raises_AgentError
          [of example_world "str ''/usr/bin/copilot''" 2 1 "[]" "''boom''" Map.empty "str ''/repo''"]
  by (simp add: example_world_def cmd_args_def git_args_def called_process_error_str_def repr_list_def
        repr_str_def repr_char_def repr_ascii_def repr_quote_def repr_bytes_def Let_def
        show_int_def show_nat.simps digit_char_def)

lemma run_example:
  "fst (run_copilot_agent example_world Map.empty (str ''/repo''))
     = Inl (AgentError (str ''Copilot CLI execution failed: Command '['/usr/bin/copilot', '--allow-all-tools', '--allow-all-paths', '--disable-builtin-mcps', '--model=claude-haiku-4.5', '--log-level=debug', '--prompt= What is the meaning and structure of this repository? After you reply, use gh to make a hello world on the last PR', '--no-custom-instructions']' returned non-zero exit status 1.''))"
proof -
  have w: "which example_world (str ''copilot'') = Some (str ''/usr/bin/copilot'')"
    by (simp add: example_world_def)
  show ?thesis
    by (simp add: run_found [OF w]) (simp add: example_world_def cmd_args_def git_args_def called_process_error_str_def repr_list_def
        repr_str_def repr_char_def repr_ascii_def repr_quote_def Let_def
        show_int_def show_nat.simps digit_char_def)
qed

text \<open>
  The claim as it was written fails: the child of \<open>example_world\<close> exits with return code 1
  and has written \<open>boom\<close> to its standard error, and the message of the \<open>AgentError\<close> does
  not contain \<open>boom\<close>.
\<close>

theorem nonzero_exit_message_counterexample:
  "fst (run_copilot_agent example_world Map.empty (str ''/repo''))
     = Inl (AgentError (str ''Copilot CLI execution failed: Command '['/usr/bin/copilot', '--allow-all-tools', '--allow-all-paths', '--disable-builtin-mcps', '--model=claude-haiku-4.5', '--log-level=debug', '--prompt= What is the meaning and structure of this repository? After you reply, use gh to make a hello world on the last PR', '--no-custom-instructions']' returned non-zero exit status 1.''))
   \<and> \<not> py_in (str ''boom'') (str ''Copilot CLI execution failed: Command '['/usr/bin/copilot', '--allow-all-tools', '--allow-all-paths', '--disable-builtin-mcps', '--model=claude-haiku-4.5', '--log-level=debug', '--prompt= What is the meaning and structure of this repository? After you reply, use gh to make a hello world on the last PR', '--no-custom-instructions']' returned non-zero exit status 1.'')"
  using run_example by simp

subsection \<open>Repository root\<close>

text \<open>
  C2, as the code has it: \<open>_get_git_root\<close> returns a path whenever the \<open>git\<close> process was
  started, has exited, and both of its captured streams decode in the encoding of the
  locale: the stripped standard output after return code 0, the third parent of the
  script's own path after any other return code.  When the process cannot be started, as
  when \<open>git\<close> is not installed, \<open>subprocess.run\<close> raises an \<open>OSError\<close>; when a stream does not
  decode, it raises \<open>UnicodeDecodeError\<close>.  Neither is a \<open>CalledProcessError\<close>, and both leave
  the function.
\<close>

theorem get_git_root_outcomes:
  "(run_process w git_args = LaunchError errno strerror filename \<longrightarrow>
      get_git_root w = (Inl (OSError errno strerror filename), [Spawn git_args]))
   \<and> (run_process w git_args = Exited seconds rc out err \<longrightarrow>
        get_git_root w =
          (case locale_decode w out of
             Inl msg \<Rightarrow> Inl (UnicodeDecodeError msg)
           | Inr t \<Rightarrow>
               (case locale_decode w err of
                  Inl msg \<Rightarrow> Inl (UnicodeDecodeError msg)
                | Inr e \<Rightarrow>
                    Inr (if rc = 0 then Path (strip (translate_newlines t))
                         else Parent (Parent (Parent (Path (script_file w)))))),
           [Spawn git_args]))"
  by (simp add: get_git_root_def subprocess_run_def capture_def split: sum.splits)


theorem get_git_root_outcomes_witness:
  "run_process example_world git_args = Exited 1 0 ''/repo\<newline>'' []
   \<and> get_git_root example_world = (Inr (Path (str ''/repo'')), [Spawn git_args])
   \<and> run_process (example_world\<lparr>run_process := (\<lambda>args. Exited 1 128 [] ''fatal: not a git repository'')\<rparr>)
        git_args = Exited 1 128 [] ''fatal: not a git repository''
   \<and> get_git_root (example_world\<lparr>run_process := (\<lambda>args. Exited 1 128 [] ''fatal: not a git repository'')\<rparr>)
        = (Inr (Parent (Parent (Parent (Path (str ''/repo/.github/scripts/gh_cli_script.py''))))), [Spawn git_args])
   \<and> run_process (example_world\<lparr>run_process := (\<lambda>args. Exited 1 0 [CHR ''/'', CHR 0xFF] [])\<rparr>) git_args
        = Exited 1 0 [CHR ''/'', CHR 0xFF] []
   \<and> get_git_root (example_world\<lparr>run_process := (\<lambda>args. Exited 1 0 [CHR ''/'', CHR 0xFF] [])\<rparr>)
        = (Inl (UnicodeDecodeError (0x27 # str ''ascii'' @ 0x27 # str '' codec can'' @ 0x27
                  # str ''t decode byte 0xff in position 1: ordinal not in range(128)'')),
           [Spawn git_args])
   \<and> run_process (example_world\<lparr>run_process :=
          (\<lambda>args. LaunchError 2 (str ''No such file or directory'') (Some (str ''git'')))\<rparr>) git_args
        = LaunchError 2 (str ''No such file or directory'') (Some (str ''git''))
   \<and> get_git_root (example_world\<lparr>run_process :=
          (\<lambda>args. LaunchError 2 (str ''No such file or directory'') (Some (str ''git'')))\<rparr>)
        = (Inl (FileNotFoundError (str ''git'')), [Spawn git_args])"
  using get_git_root_outcomes [of example_world 2 "[]" None 1 0 "''/repo\<newline>''" "[]"]
        get_git_root_outcomes
          [of "example_world\<lparr>run_process := (\<lambda>args. Exited 1 128 [] ''fatal: not a git repository'')\<rparr>"
              2 "[]" None 1 128 "[]" "''fatal: not a git repository''"]
        get_git_root_outcomes
          [of "example_world\<lparr>run_process := (\<lambda>args. Exited 1 0 [CHR ''/'', CHR 0xFF] [])\<rparr>"
              2 "[]" None 1 0 "[CHR ''/'', CHR 0xFF]" "[]"]
        get_git_root_outcomes
          [of "example_world\<lparr>run_process :=
                 (\<lambda>args. LaunchError 2 (str ''No such file or directory'') (Some (str ''git'')))\<rparr>"
              2 "str ''No such file or directory''" "Some (str ''git'')" 0 0 "[]" "[]"]
  by (simp add: example_world_def ascii_decode_def strip_def is_space_def FileNotFoundError_def
        hex2_def digit_char_def show_nat.simps)

text \<open>
  The claim as it was written fails where \<open>git\<close> is not installed: the function raises
  \<open>FileNotFoundError\<close>.
\<close>

theorem get_git_root_git_absent_counterexample:
  "fst (get_git_root (example_world\<lparr>run_process :=
          (\<lambda>args. LaunchError 2 (str ''No such file or directory'') (Some (str ''git'')))\<rparr>))
     = Inl (FileNotFoundError (str ''git''))"
  by (simp add: get_git_root_def subprocess_run_def FileNotFoundError_def)

subsection \<open>The credential\<close>

text \<open>
  C7: \<open>resolve_ado_token\<close> raises \<open>ConfigurationError\<close> exactly when the \<open>ado_token\<close> of the
  snapshot is \<open>None\<close> or the empty string, and returns every other value as it is; it
  raises nothing else.
\<close>

theorem resolve_ado_token_iff:
  "((\<exists>m. resolve_ado_token c = Inl (ConfigurationError m))
      \<longleftrightarrow> (ado_token (env c) = None \<or> ado_token (env c) = Some []))
   \<and> (\<forall>s. ado_token (env c) = Some s \<and> s \<noteq> [] \<longrightarrow> resolve_ado_token c = Inr s)
   \<and> (\<forall>e. resolve_ado_token c = Inl e \<longrightarrow>
          e = ConfigurationError (str ''ADO_TOKEN environment variable is required''))"
  by (auto simp add: resolve_ado_token_def py_not_def split: option.splits)

theorem resolve_ado_token_iff_witness:
  "ado_token (env example_config) = Some (str ''secret'') \<and> str ''secret'' \<noteq> []
   \<and> resolve_ado_token example_config = Inr (str ''secret'')
   \<and> ado_token (env (example_config\<lparr>env := from_environment_arguments Map.empty\<rparr>)) = None
   \<and> resolve_ado_token (example_config\<lparr>env := from_environment_arguments Map.empty\<rparr>)
        = Inl (ConfigurationError (str ''ADO_TOKEN environment variable is required''))"
  using resolve_ado_token_iff [of example_config]
        resolve_ado_token_iff [of "example_config\<lparr>env := from_environment_arguments Map.empty\<rparr>"]
  by (auto simp add: example_config_def from_environment_arguments_def)

subsection \<open>Loading the configuration\<close>

lemma get_git_root_schema_world:
  "get_git_root (schema_world schema) = (Inr (Path (str ''/repo'')), [Spawn git_args])"
  by (simp add: get_git_root_def subprocess_run_def capture_def schema_world_def example_world_def
        ascii_decode_def strip_def is_space_def)


lemma get_git_root_spawns: "snd (get_git_root w) = [Spawn git_args]"
  by (auto simp add: get_git_root_def split: sum.splits option.splits captured.splits exn.splits)



lemma Config_load_as_written:
  "fst (get_git_root w) = Inr r \<Longrightarrow>
   Config_load as_written w environ = (Inl (TypeError (str ''PathConfig() takes no arguments'')), [Spawn git_args])"
  using get_git_root_spawns [of w]
  by (cases "get_git_root w")
     (simp add: Config_load_def PathConfig_from_root_def call_def as_written_def instantiate_def)

lemma get_config_as_written:
  "fst (get_git_root w) = Inr r \<Longrightarrow> config g = None \<Longrightarrow>
   get_config as_written w g
     = (Inl (TypeError (str ''PathConfig() takes no arguments'')),
        g\<lparr>os_environ := load_dotenv w (os_environ g)\<rparr>, [LoadDotenv, Spawn git_args])"
  by (simp add: get_config_def Config_load_as_written Let_def)

lemma Config_load_with_constructors:
  assumes "\<forall>cls. has_init cl cls" and "dataset_schema_path cl = Some f"
    and "fst (get_git_root w) = Inr r"
  shows "Config_load cl w environ =
           (case files w (f r) of
              Unreadable errno strerror filename \<Rightarrow> Inl (OSError errno strerror filename)
            | Malformed msg \<Rightarrow> Inl (JSONDecodeError msg)
            | Document schema \<Rightarrow>
                (case instance_pattern_of schema of
                   Inl e \<Rightarrow> Inl e
                 | Inr ip \<Rightarrow>
                     Inr \<lparr>paths = \<lparr>root = r\<rparr>,
                          env = from_environment_arguments environ,
                          timeout = \<lparr>build_baseapp = 1800, build_app = 300, test_execution = 180,
                                     github_copilot_cli = 1800\<rparr>,
                          file_patterns =
                            \<lparr>trajectory_pattern = str ''.traj.json'', patch_pattern = str ''.patch'',
                             instance_pattern = ip, result_pattern = str ''.jsonl'',
                             copilot_instruction_naming = str ''copilot-instructions.md'',
                             copilot_instructions_dirname = str ''instructions'',
                             copilot_instructions_pattern = str ''*.instructions.md''\<rparr>\<rparr>),
            [Spawn git_args, OpenFile (f r)])"
  using assms get_git_root_spawns [of w]
  by (cases "get_git_root w")
     (simp add: Config_load_def PathConfig_from_root_def PathConfig_dataset_schema_path_def call_def
        load_json_def and_then_def assemble_def from_environment_def TimeoutConfig_default_def
        FilePatternConfig_default_def split: file_content.splits sum.splits)

lemma Config_load_schema_world:
  "Config_load with_constructors (schema_world schema) environ =
     (case instance_pattern_of schema of
        Inl e \<Rightarrow> Inl e
      | Inr ip \<Rightarrow>
          Inr \<lparr>paths = \<lparr>root = Path (str ''/repo'')\<rparr>,
               env = from_environment_arguments environ,
               timeout = \<lparr>build_baseapp = 1800, build_app = 300, test_execution = 180,
                          github_copilot_cli = 1800\<rparr>,
               file_patterns =
                 \<lparr>trajectory_pattern = str ''.traj.json'', patch_pattern = str ''.patch'',
                  instance_pattern = ip, result_pattern = str ''.jsonl'',
                  copilot_instruction_naming = str ''copilot-instructions.md'',
                  copilot_instructions_dirname = str ''instructions'',
                  copilot_instructions_pattern = str ''*.instructions.md''\<rparr>\<rparr>,
      [Spawn git_args, OpenFile (Join (Join (Path (str ''/repo'')) (str ''dataset'')) (str ''schema.json''))])"
  using Config_load_with_constructors
          [of with_constructors "\<lambda>r. Join (Join r (str ''dataset'')) (str ''schema.json'')"
              "schema_world schema" "Path (str ''/repo'')" environ]
        get_git_root_schema_world [of schema]
  by (simp add: with_constructors_def) (simp add: schema_world_def)











subsection \<open>The memoized configuration\<close>

text \<open>
  \<open>get_config\<close> memoizes what \<open>Config.load\<close> returns: after a call that has returned a
  configuration, every call returns that configuration, in whatever world it is made, and
  does nothing else.  With classes that can be instantiated the first call returns one.
\<close>

lemma get_config_idempotent:
  "fst (get_config cl w g) = Inr c \<Longrightarrow>
   get_config cl w' (fst (snd (get_config cl w g))) = (Inr c, fst (snd (get_config cl w g)), [])"
  by (cases "config g") (auto simp add: get_config_def Let_def split_beta split: sum.splits)

lemma get_config_with_constructors_caches:
  "\<exists>c. fst (get_config with_constructors (schema_world full_schema) initial) = Inr c
       \<and> instance_pattern (file_patterns c) = JString (str ''^[a-z]+__[0-9]+$'')
       \<and> get_config with_constructors w'
            (fst (snd (get_config with_constructors (schema_world full_schema) initial)))
          = (Inr c, fst (snd (get_config with_constructors (schema_world full_schema) initial)), [])"
proof -
  have "\<exists>c. fst (get_config with_constructors (schema_world full_schema) initial) = Inr c
       \<and> instance_pattern (file_patterns c) = JString (str ''^[a-z]+__[0-9]+$'')"
    by (simp add: get_config_def initial_def Let_def split_beta Config_load_schema_world full_schema_def
          instance_pattern_of_def and_then_def py_get_def)
  then show ?thesis
    using get_config_idempotent by blast
qed

text \<open>
  C9: for the classes as they are written the first call never returns.  In a repository
  with a well-formed schema document, the first call of \<open>get_config\<close> runs \<open>load_dotenv\<close>
  and \<open>git\<close> and raises \<open>TypeError\<close> at \<open>PathConfig.from_root\<close>; \<open>_config\<close> stays \<open>None\<close>, and
  the second call does all of it again.  No call returns an object, and resolution runs in
  every call.
\<close>

theorem get_config_never_caches:
  "get_config as_written (schema_world full_schema) initial
     = (Inl (TypeError (str ''PathConfig() takes no arguments'')), initial, [LoadDotenv, Spawn git_args])
   \<and> get_config as_written (schema_world full_schema)
        (fst (snd (get_config as_written (schema_world full_schema) initial)))
     = (Inl (TypeError (str ''PathConfig() takes no arguments'')), initial, [LoadDotenv, Spawn git_args])"
proof -
  have env: "load_dotenv (schema_world full_schema) Map.empty = Map.empty"
    by (simp add: load_dotenv_def schema_world_def example_world_def)
  have "get_config as_written (schema_world full_schema) initial
     = (Inl (TypeError (str ''PathConfig() takes no arguments'')), initial, [LoadDotenv, Spawn git_args])"
    using get_config_as_written [of "schema_world full_schema" "Path (str ''/repo'')" initial]
          get_git_root_schema_world [of full_schema]
    by (simp add: initial_def env)
  then show ?thesis by simp
qed

subsection \<open>The environment snapshot\<close>

lemma from_environment_arguments_flags:
  "github_actions (from_environment_arguments environ) \<longleftrightarrow> environ (str ''GITHUB_ACTIONS'') = Some (str ''true'')"
  "runner_debug (from_environment_arguments environ) \<longleftrightarrow> environ (str ''RUNNER_DEBUG'') = Some (str ''1'')"
  by (simp_all add: from_environment_arguments_def)

lemma from_environment_as_written:
  "from_environment as_written environ = EnvironmentConfig_from_environment environ"
  by (simp add: from_environment_def as_written_def)

text \<open>
  C10: \<open>from_environment\<close> compares \<open>GITHUB_ACTIONS\<close> with \<open>"true"\<close> and \<open>RUNNER_DEBUG\<close> with
  \<open>"1"\<close> (\<open>from_environment_arguments_flags\<close>), and then calls the class with the results as
  keyword arguments.  \<open>EnvironmentConfig\<close> takes no arguments: with \<open>GITHUB_ACTIONS=true\<close>
  and \<open>RUNNER_DEBUG=1\<close> the call raises \<open>TypeError\<close>, and there is no snapshot whose
  \<open>github_actions\<close> is \<open>True\<close>.
\<close>

theorem from_environment_raises_TypeError:
  "EnvironmentConfig_from_environment [str ''GITHUB_ACTIONS'' \<mapsto> str ''true'', str ''RUNNER_DEBUG'' \<mapsto> str ''1'']
     = Inl (TypeError (str ''EnvironmentConfig() takes no arguments''))
   \<and> github_actions (from_environment_arguments [str ''GITHUB_ACTIONS'' \<mapsto> str ''true'', str ''RUNNER_DEBUG'' \<mapsto> str ''1''])
   \<and> runner_debug (from_environment_arguments [str ''GITHUB_ACTIONS'' \<mapsto> str ''true'', str ''RUNNER_DEBUG'' \<mapsto> str ''1''])"
  by (simp add: EnvironmentConfig_from_environment_def instantiate_def from_environment_arguments_def)

end
